theory Spec2Isabelle
  imports Main "HOL-Library.AList"
begin

section \<open>Permission documents\<close>

text \<open>
  A permission document is the JSON value the services store in the \<open>jsonb\<close> columns
  \<open>permissions\<close>, \<open>custom_permissions\<close> and \<open>effective_permissions\<close>. The values the
  declared type \<open>PermissionTemplate['permissions']\<close> admits, and the values
  \<open>updateCustomPermission\<close> builds, are objects and booleans, so a value is a boolean or
  an object. An object is the list of its own entries in insertion order; a JavaScript
  object has no two entries with one key (\<open>wf_doc\<close> below says so for the two levels
  the merge looks at).

  Every object of a document is a plain object, so its prototype is
  \<open>Object.prototype\<close>. The properties that assignments have put on
  \<open>Object.prototype\<close> are state of the whole process; they are a document of their
  own, called \<open>proto\<close> below, and they are empty in a fresh process. A read
  \<open>x[key]\<close> gives the own entry of \<open>x\<close> when there is one and the inherited one
  otherwise. No document is taken to hold an own key named \<open>__proto__\<close>: none of the
  writes of the services creates one.
\<close>

datatype pval = PBool bool | PObj "(string \<times> pval) list"

type_synonym pdoc = "(string \<times> pval) list"


text \<open>\<open>{ ...a, ...b }\<close>: the entries of \<open>a\<close>, each entry of \<open>b\<close> assigned in turn.\<close>

definition spread :: "pdoc \<Rightarrow> pdoc \<Rightarrow> pdoc" where
  "spread a b = fold (\<lambda>kv acc. AList.update (fst kv) (snd kv) acc) b a"

text \<open>
  \<open>merged[category]\<close>, as far as it is a boolean or an object: the own entry, else the
  entry \<open>Object.prototype\<close> was given. (A builtin method of \<open>Object.prototype\<close> found
  under the key is a function, and spreads to nothing, as \<open>undefined\<close> does.)
\<close>

definition own_or_inherited :: "pdoc \<Rightarrow> pdoc \<Rightarrow> string \<Rightarrow> pval option" where
  "own_or_inherited proto ob key =
     (case map_of ob key of Some v \<Rightarrow> Some v | None \<Rightarrow> map_of proto key)"

text \<open>
  \<open>...(merged[category] as Record<string, unknown>)\<close>: spreading an object gives its
  entries, spreading \<open>undefined\<close> or a boolean gives none.
\<close>

definition spread_entries :: "pval option \<Rightarrow> pdoc" where
  "spread_entries v = (case v of Some (PObj ob) \<Rightarrow> ob | Some (PBool b) \<Rightarrow> [] | None \<Rightarrow> [])"

text \<open>
  \<open>mergePermissions\<close> (PermissionService, private): \<open>merged = { ...base }\<close>, then for
  each entry \<open>[category, perms]\<close> of the override whose value is an object,
  \<open>merged[category] = { ...merged[category], ...perms }\<close>. An entry whose value is not an
  object is skipped. The first argument is the state of \<open>Object.prototype\<close>.
\<close>

definition merge_step :: "pdoc \<Rightarrow> string \<times> pval \<Rightarrow> pdoc \<Rightarrow> pdoc" where
  "merge_step proto entry merged =
     (case snd entry of
        PObj perms \<Rightarrow>
          AList.update (fst entry)
            (PObj (spread (spread_entries (own_or_inherited proto merged (fst entry))) perms))
            merged
      | PBool b \<Rightarrow> merged)"

definition mergePermissions :: "pdoc \<Rightarrow> pdoc \<Rightarrow> pdoc \<Rightarrow> pdoc" where
  "mergePermissions proto base override = fold (merge_step proto) override base"

subsection \<open>The role default table\<close>

datatype UserRole = Super_admin | Org_admin | Senior_manager | Manager | Lead | Member

fun DEFAULT_ROLE_PERMISSIONS :: "UserRole \<Rightarrow> pdoc" where
  "DEFAULT_ROLE_PERMISSIONS Super_admin =
    [(''tasks'', PObj [(''view_own'', PBool True), (''view_team'', PBool True),
        (''create'', PBool True), (''edit_own'', PBool True), (''edit_team'', PBool True),
        (''delete_own'', PBool True), (''approve'', PBool True)]),
     (''timesheet'', PObj [(''view_own'', PBool True), (''view_team'', PBool True),
        (''edit_own'', PBool True), (''approve_team'', PBool True)]),
     (''leaves'', PObj [(''view_own'', PBool True), (''view_team'', PBool True),
        (''request'', PBool True), (''approve_team'', PBool True)]),
     (''resources'', PObj [(''view'', PBool True), (''book'', PBool True),
        (''allocate'', PBool True), (''manage'', PBool True)]),
     (''analytics'', PObj [(''view_own'', PBool True), (''view_team'', PBool True),
        (''view_org'', PBool True)]),
     (''members'', PObj [(''view'', PBool True), (''add'', PBool True),
        (''edit'', PBool True), (''remove'', PBool True)])]"
| "DEFAULT_ROLE_PERMISSIONS Org_admin =
    [(''tasks'', PObj [(''view_own'', PBool True), (''view_team'', PBool True),
        (''create'', PBool True), (''edit_own'', PBool True), (''edit_team'', PBool True),
        (''delete_own'', PBool True), (''approve'', PBool True)]),
     (''timesheet'', PObj [(''view_own'', PBool True), (''view_team'', PBool True),
        (''edit_own'', PBool True), (''approve_team'', PBool True)]),
     (''leaves'', PObj [(''view_own'', PBool True), (''view_team'', PBool True),
        (''request'', PBool True), (''approve_team'', PBool True)]),
     (''resources'', PObj [(''view'', PBool True), (''book'', PBool True),
        (''allocate'', PBool True), (''manage'', PBool True)]),
     (''analytics'', PObj [(''view_own'', PBool True), (''view_team'', PBool True),
        (''view_org'', PBool True)]),
     (''members'', PObj [(''view'', PBool True), (''add'', PBool True),
        (''edit'', PBool True), (''remove'', PBool True)])]"
| "DEFAULT_ROLE_PERMISSIONS Senior_manager =
    [(''tasks'', PObj [(''view_own'', PBool True), (''view_team'', PBool True),
        (''create'', PBool True), (''edit_own'', PBool True), (''edit_team'', PBool True),
        (''delete_own'', PBool False), (''approve'', PBool True)]),
     (''timesheet'', PObj [(''view_own'', PBool True), (''view_team'', PBool True),
        (''edit_own'', PBool True), (''approve_team'', PBool True)]),
     (''leaves'', PObj [(''view_own'', PBool True), (''view_team'', PBool True),
        (''request'', PBool True), (''approve_team'', PBool True)]),
     (''resources'', PObj [(''view'', PBool True), (''book'', PBool True),
        (''allocate'', PBool True), (''manage'', PBool False)]),
     (''analytics'', PObj [(''view_own'', PBool True), (''view_team'', PBool True),
        (''view_org'', PBool False)]),
     (''members'', PObj [(''view'', PBool True), (''add'', PBool True),
        (''edit'', PBool True), (''remove'', PBool False)])]"
| "DEFAULT_ROLE_PERMISSIONS Manager =
    [(''tasks'', PObj [(''view_own'', PBool True), (''view_team'', PBool True),
        (''create'', PBool True), (''edit_own'', PBool True), (''edit_team'', PBool True),
        (''delete_own'', PBool False), (''approve'', PBool True)]),
     (''timesheet'', PObj [(''view_own'', PBool True), (''view_team'', PBool True),
        (''edit_own'', PBool True), (''approve_team'', PBool True)]),
     (''leaves'', PObj [(''view_own'', PBool True), (''view_team'', PBool True),
        (''request'', PBool True), (''approve_team'', PBool True)]),
     (''resources'', PObj [(''view'', PBool True), (''book'', PBool True),
        (''allocate'', PBool True), (''manage'', PBool False)]),
     (''analytics'', PObj [(''view_own'', PBool True), (''view_team'', PBool True),
        (''view_org'', PBool False)]),
     (''members'', PObj [(''view'', PBool True), (''add'', PBool False),
        (''edit'', PBool False), (''remove'', PBool False)])]"
| "DEFAULT_ROLE_PERMISSIONS Lead =
    [(''tasks'', PObj [(''view_own'', PBool True), (''view_team'', PBool True),
        (''create'', PBool True), (''edit_own'', PBool True), (''edit_team'', PBool False),
        (''delete_own'', PBool False), (''approve'', PBool False)]),
     (''timesheet'', PObj [(''view_own'', PBool True), (''view_team'', PBool True),
        (''edit_own'', PBool True), (''approve_team'', PBool False)]),
     (''leaves'', PObj [(''view_own'', PBool True), (''view_team'', PBool True),
        (''request'', PBool True), (''approve_team'', PBool False)]),
     (''resources'', PObj [(''view'', PBool True), (''book'', PBool True),
        (''allocate'', PBool False), (''manage'', PBool False)]),
     (''analytics'', PObj [(''view_own'', PBool True), (''view_team'', PBool False),
        (''view_org'', PBool False)]),
     (''members'', PObj [(''view'', PBool True), (''add'', PBool False),
        (''edit'', PBool False), (''remove'', PBool False)])]"
| "DEFAULT_ROLE_PERMISSIONS Member =
    [(''tasks'', PObj [(''view_own'', PBool True), (''view_team'', PBool False),
        (''create'', PBool True), (''edit_own'', PBool True), (''edit_team'', PBool False),
        (''delete_own'', PBool False), (''approve'', PBool False)]),
     (''timesheet'', PObj [(''view_own'', PBool True), (''view_team'', PBool False),
        (''edit_own'', PBool True), (''approve_team'', PBool False)]),
     (''leaves'', PObj [(''view_own'', PBool True), (''view_team'', PBool False),
        (''request'', PBool True), (''approve_team'', PBool False)]),
     (''resources'', PObj [(''view'', PBool True), (''book'', PBool True),
        (''allocate'', PBool False), (''manage'', PBool False)]),
     (''analytics'', PObj [(''view_own'', PBool True), (''view_team'', PBool False),
        (''view_org'', PBool False)]),
     (''members'', PObj [(''view'', PBool True), (''add'', PBool False),
        (''edit'', PBool False), (''remove'', PBool False)])]"

section \<open>The store\<close>

text \<open>
  The state the services run on: the tables the two services query, as lists of rows in
  table order, and the properties the process has put on \<open>Object.prototype\<close>
  (\<open>object_prototype\<close>, empty in a fresh process). A row keeps the
  columns the modelled functions read or write; the columns of \<open>users\<close> and
  \<open>management_hierarchy\<close> that none of them reads (email, name, the row id and the
  timestamps of an edge) are left out. Identifiers are strings, timestamps are integers.
  The column \<open>role\<close> is constrained to the six roles by the schema, so
  \<open>DEFAULT_ROLE_PERMISSIONS[user.role]\<close> is always one of the six documents and the
  fallback \<open>|| DEFAULT_ROLE_PERMISSIONS.member\<close> never fires.
\<close>

record User =
  u_id :: string
  u_role :: UserRole
  u_organization_id :: string
  u_active :: bool

datatype Scope = Team | Org_wide

record ManagementHierarchy =
  mh_organization_id :: string
  mh_manager_id :: string
  mh_manages_user_id :: string
  mh_team_id :: "string option"
  mh_scope :: Scope
  mh_level :: int
  mh_delegated_permissions :: pdoc
  mh_active :: bool

record PermissionTemplate =
  pt_id :: string
  pt_organization_id :: "string option"
  pt_permissions :: pdoc

datatype Source = Role_source | Template_source | Custom_source

record UserPermission =
  up_id :: string
  up_user_id :: string
  up_organization_id :: "string option"
  up_team_id :: "string option"
  up_source :: "Source option"
  up_template_id :: "string option"
  up_custom_permissions :: "pdoc option"
  up_effective_permissions :: "pdoc option"
  up_updated_at :: int

record store =
  users :: "User list"
  management_hierarchy :: "ManagementHierarchy list"
  permission_templates :: "PermissionTemplate list"
  user_permissions :: "UserPermission list"
  object_prototype :: pdoc

text \<open>
  The query client: \<open>.eq\<close> keeps the rows whose column equals the value, \<open>.single()\<close>
  gives the row when exactly one row is left and \<open>null\<close> otherwise, \<open>.order\<close> sorts
  (stably, in the model), \<open>.limit(1)\<close> keeps the first row. The database is taken to
  accept every write, so the branches that only rethrow a database error are not modelled.

  \<open>.eq(column, value)\<close> on a nullable column compares with the equality of SQL: given
  \<open>null\<close> as the value it keeps no row, also none whose column is \<open>NULL\<close>.
\<close>

definition eq_column :: "'a option \<Rightarrow> 'a option \<Rightarrow> bool" where
  "eq_column column v = (case v of None \<Rightarrow> False | Some x \<Rightarrow> column = Some x)"

definition single_row :: "'a list \<Rightarrow> 'a option" where
  "single_row rows = (case rows of [r] \<Rightarrow> Some r | _ \<Rightarrow> None)"

text \<open>JavaScript truthiness of an optional string: absent and the empty string are falsy.\<close>

definition truthy :: "string option \<Rightarrow> bool" where
  "truthy s = (case s of None \<Rightarrow> False | Some x \<Rightarrow> x \<noteq> [])"

text \<open>\<open>x || null\<close> on an optional string.\<close>

definition or_null :: "string option \<Rightarrow> string option" where
  "or_null s = (if truthy s then s else None)"

text \<open>
  A context is given by the values of its two keys, each a string or \<open>undefined\<close>, as
  the declared type has it. The model describes the calls whose context object holds
  both keys, with the value \<open>undefined\<close> for a scope that is not requested; the reads
  \<open>context?.orgId\<close> and \<open>context?.teamId\<close> then yield these values whatever
  \<open>Object.prototype\<close> holds.
\<close>

record Context =
  orgId :: "string option"
  teamId :: "string option"

datatype error =
    UserNotFound
  | TypeError
  | TemplateNotFound
  | FailedToApplyTemplate
  | FailedToUpdateUser
  | SelfManagement
  | ManagerOrUserNotFound
  | DifferentOrganization
  | RelationshipExists

definition getUser :: "store \<Rightarrow> string \<Rightarrow> User option" where
  "getUser st userId = single_row (filter (\<lambda>u. u_id u = userId) (users st))"

definition getTemplate :: "store \<Rightarrow> string \<Rightarrow> PermissionTemplate option" where
  "getTemplate st templateId =
     single_row (filter (\<lambda>t. pt_id t = templateId) (permission_templates st))"

section \<open>PermissionService\<close>

text \<open>
  The query the three functions build on \<open>user_permissions\<close>: the user's rows, narrowed
  by the organization when \<open>context.orgId\<close> is truthy and by the team when
  \<open>context.teamId\<close> is truthy. A scope component that is absent narrows nothing.
\<close>

definition scope_query :: "store \<Rightarrow> string \<Rightarrow> Context \<Rightarrow> UserPermission list" where
  "scope_query st userId ctx =
     filter (\<lambda>p. up_user_id p = userId
         \<and> (if truthy (orgId ctx) then up_organization_id p = orgId ctx else True)
         \<and> (if truthy (teamId ctx) then up_team_id p = teamId ctx else True))
       (user_permissions st)"

text \<open>
  The recomputation both \<open>getEffectivePermissions\<close> (lines 299 to 313) and
  \<open>updateCustomPermission\<close> (lines 606 to 616) write out: a copy of the role
  document; the template merged on it when the row names a template that exists; the
  custom overrides merged on that when the row has them.
\<close>

definition recompute :: "store \<Rightarrow> pdoc \<Rightarrow> string option \<Rightarrow> pdoc option \<Rightarrow> pdoc" where
  "recompute st rolePermissions template_id custom_permissions =
     (let effective = rolePermissions;
          effective =
            (if truthy template_id then
               (case getTemplate st (the template_id) of
                  Some template \<Rightarrow>
                    mergePermissions (object_prototype st) effective (pt_permissions template)
                | None \<Rightarrow> effective)
             else effective)
      in (case custom_permissions of
            Some custom \<Rightarrow> mergePermissions (object_prototype st) effective custom
          | None \<Rightarrow> effective))"

text \<open>\<open>.update(fields).eq('id', rowId)\<close> on \<open>user_permissions\<close>.\<close>

definition update_user_permission ::
  "store \<Rightarrow> string \<Rightarrow> (UserPermission \<Rightarrow> UserPermission) \<Rightarrow> store" where
  "update_user_permission st rowId f =
     st\<lparr>user_permissions := map (\<lambda>p. if up_id p = rowId then f p else p) (user_permissions st)\<rparr>"

text \<open>
  \<open>query.order('updated_at', { ascending: false }).limit(1)\<close>: the most recently
  updated row the scope query selects, as a list of at most one row.
\<close>

definition latest_rows :: "store \<Rightarrow> string \<Rightarrow> Context \<Rightarrow> UserPermission list" where
  "latest_rows st userId ctx =
     take 1 (sort_key (\<lambda>p. - up_updated_at p) (scope_query st userId ctx))"

text \<open>
  \<open>getEffectivePermissions\<close>. \<open>now\<close> is the clock reading of
  \<open>new Date().toISOString()\<close>. The result is the document and the store after the
  call (the recomputation writes the document back to the row).
\<close>

definition getEffectivePermissions ::
  "store \<Rightarrow> int \<Rightarrow> string \<Rightarrow> Context \<Rightarrow> error + (pdoc \<times> store)" where
  "getEffectivePermissions st now userId ctx =
     (case getUser st userId of
        None \<Rightarrow> Inl UserNotFound
      | Some user \<Rightarrow>
          (let rolePermissions = DEFAULT_ROLE_PERMISSIONS (u_role user);
               userPerms = latest_rows st userId ctx
           in (case userPerms of
                 [] \<Rightarrow> Inr (rolePermissions, st)
               | userPerm # rest \<Rightarrow>
                   (case up_effective_permissions userPerm of
                      Some cached \<Rightarrow> Inr (cached, st)
                    | None \<Rightarrow>
                        (let effective = recompute st rolePermissions
                               (up_template_id userPerm) (up_custom_permissions userPerm)
                         in Inr (effective,
                              update_user_permission st (up_id userPerm)
                                (\<lambda>p. p\<lparr>up_effective_permissions := Some effective,
                                       up_updated_at := now\<rparr>)))))))"

text \<open>\<open>permission.split('.')\<close>: always at least one part, empty parts kept.\<close>

fun split_dot :: "string \<Rightarrow> string list" where
  "split_dot [] = [[]]"
| "split_dot (c # cs) =
     (if c = CHR ''.'' then [] # split_dot cs
      else (case split_dot cs of
              w # ws \<Rightarrow> (c # w) # ws
            | [] \<Rightarrow> [[c]]))"

text \<open>
  What the two path walks can come to: a value of a document (or of the properties put
  on \<open>Object.prototype\<close>), \<open>Object.prototype\<close> itself, \<open>null\<close> (the prototype of
  \<open>Object.prototype\<close>), or one of the builtin methods of \<open>Object.prototype\<close>.
\<close>

datatype jsval = Data pval | Object_prototype | Null_value | Builtin_function

text \<open>
  The builtin methods of \<open>Object.prototype\<close>. Both walks treat a builtin method as
  they treat any value that is not an object, so the list decides no result.
\<close>

definition builtin_names :: "string list" where
  "builtin_names = [''constructor'', ''__defineGetter__'', ''__defineSetter__'',
     ''hasOwnProperty'', ''__lookupGetter__'', ''__lookupSetter__'', ''isPrototypeOf'',
     ''propertyIsEnumerable'', ''toString'', ''valueOf'', ''toLocaleString'']"

text \<open>
  A property of \<open>Object.prototype\<close> other than \<open>__proto__\<close>: one that was assigned,
  else a builtin method.
\<close>

definition prototype_property :: "pdoc \<Rightarrow> string \<Rightarrow> jsval option" where
  "prototype_property proto key =
     (case map_of proto key of
        Some v \<Rightarrow> Some (Data v)
      | None \<Rightarrow> if key \<in> set builtin_names then Some Builtin_function else None)"

text \<open>
  \<open>key in current\<close> and \<open>current[key]\<close> for an object: \<open>None\<close> when the key is
  neither an own key nor found on the prototype chain, the value otherwise. The key
  \<open>__proto__\<close>, when it is not an own key, is the accessor of \<open>Object.prototype\<close>: it
  gives the prototype of the object it is read on.
\<close>

definition get_property :: "pdoc \<Rightarrow> jsval \<Rightarrow> string \<Rightarrow> jsval option" where
  "get_property proto current key =
     (case current of
        Data (PObj ob) \<Rightarrow>
          (case map_of ob key of
             Some v \<Rightarrow> Some (Data v)
           | None \<Rightarrow> if key = ''__proto__'' then Some Object_prototype
                     else prototype_property proto key)
      | Data (PBool b) \<Rightarrow> None
      | Object_prototype \<Rightarrow>
          if key = ''__proto__'' then Some Null_value else prototype_property proto key
      | Null_value \<Rightarrow> None
      | Builtin_function \<Rightarrow> None)"

text \<open>
  The loop of \<open>checkPermission\<close>: at each part, \<open>current\<close> must be an object
  (\<open>typeof current === 'object' && current !== null\<close>) with \<open>part in current\<close>, else the
  function returns \<open>false\<close>; after the last part the result is \<open>current === true\<close>.
\<close>

fun walk :: "pdoc \<Rightarrow> jsval \<Rightarrow> string list \<Rightarrow> bool" where
  "walk proto current [] = (current = Data (PBool True))"
| "walk proto current (part # parts) =
     (case current of
        Data (PBool b) \<Rightarrow> False
      | Null_value \<Rightarrow> False
      | Builtin_function \<Rightarrow> False
      | _ \<Rightarrow> (case get_property proto current part of
                Some v \<Rightarrow> walk proto v parts
              | None \<Rightarrow> False))"

definition checkPermission ::
  "store \<Rightarrow> int \<Rightarrow> string \<Rightarrow> string \<Rightarrow> Context \<Rightarrow> error + (bool \<times> store)" where
  "checkPermission st now userId permission ctx =
     (case getEffectivePermissions st now userId ctx of
        Inl e \<Rightarrow> Inl e
      | Inr (effective, st') \<Rightarrow>
          Inr (walk (object_prototype st') (Data (PObj effective)) (split_dot permission), st'))"

text \<open>
  The path walk of \<open>updateCustomPermission\<close> (lines 590 to 598). \<open>current\<close> is a
  reference: to an object inside the custom overrides, to \<open>Object.prototype\<close> or an
  object inside the properties put on it, or \<open>null\<close>. An object lives in one place, so a
  reference is the place and the path of own keys that leads to the object; the empty
  path is the custom-overrides object, respectively \<open>Object.prototype\<close> itself.
\<close>

datatype reference = In_custom "string list" | In_prototype "string list" | Null_reference

fun obj_at :: "pdoc \<Rightarrow> string list \<Rightarrow> pdoc" where
  "obj_at ob [] = ob"
| "obj_at ob (key # keys) =
     (case map_of ob key of Some (PObj child) \<Rightarrow> obj_at child keys | _ \<Rightarrow> [])"

fun put_at :: "pdoc \<Rightarrow> string list \<Rightarrow> string \<Rightarrow> pval \<Rightarrow> pdoc" where
  "put_at ob [] name v = AList.update name v ob"
| "put_at ob (key # keys) name v =
     (case map_of ob key of
        Some (PObj child) \<Rightarrow> AList.update key (PObj (put_at child keys name v)) ob
      | _ \<Rightarrow> ob)"

definition own_entries :: "pdoc \<Rightarrow> pdoc \<Rightarrow> reference \<Rightarrow> pdoc" where
  "own_entries custom proto current =
     (case current of
        In_custom path \<Rightarrow> obj_at custom path
      | In_prototype path \<Rightarrow> obj_at proto path
      | Null_reference \<Rightarrow> [])"

definition child_reference :: "reference \<Rightarrow> string \<Rightarrow> reference" where
  "child_reference current key =
     (case current of
        In_custom path \<Rightarrow> In_custom (path @ [key])
      | In_prototype path \<Rightarrow> In_prototype (path @ [key])
      | Null_reference \<Rightarrow> Null_reference)"

text \<open>
  \<open>parts[i] in current\<close> together with \<open>typeof current[parts[i]]\<close>: the object (or
  \<open>null\<close>, whose \<open>typeof\<close> is \<open>'object'\<close> too) the property refers to, or \<open>None\<close> when
  the property is absent or is not an object.
\<close>

definition inherited_object :: "pdoc \<Rightarrow> string \<Rightarrow> reference option" where
  "inherited_object proto key =
     (case map_of proto key of
        Some (PObj child) \<Rightarrow> Some (In_prototype [key])
      | _ \<Rightarrow> None)"

definition object_property :: "pdoc \<Rightarrow> pdoc \<Rightarrow> reference \<Rightarrow> string \<Rightarrow> reference option" where
  "object_property custom proto current key =
     (if current = In_prototype [] then
        (if key = ''__proto__'' then Some Null_reference else inherited_object proto key)
      else
        (case map_of (own_entries custom proto current) key of
           Some (PObj child) \<Rightarrow> Some (child_reference current key)
         | Some (PBool b) \<Rightarrow> None
         | None \<Rightarrow> if key = ''__proto__'' then Some (In_prototype [])
                   else inherited_object proto key))"

text \<open>
  \<open>current[key] = v\<close> where the assignment makes or changes an own property of the
  object \<open>current\<close> refers to.
\<close>

definition assign_property ::
  "pdoc \<Rightarrow> pdoc \<Rightarrow> reference \<Rightarrow> string \<Rightarrow> pval \<Rightarrow> pdoc \<times> pdoc" where
  "assign_property custom proto current key v =
     (case current of
        In_custom path \<Rightarrow> (put_at custom path key v, proto)
      | In_prototype path \<Rightarrow> (custom, put_at proto path key v)
      | Null_reference \<Rightarrow> (custom, proto))"

text \<open>
  The loop and the final assignment. The result is the custom overrides, the properties
  of \<open>Object.prototype\<close>, and whether a \<open>TypeError\<close> was thrown (\<open>in\<close> or an
  assignment on \<open>null\<close>). Every part but the last is entered, after a fresh object was
  assigned to it when it is absent or not an object; the last part is set to the value.
  Assigning a boolean to \<open>__proto__\<close>, where that is not an own key, calls the accessor
  of \<open>Object.prototype\<close>, which ignores a value that is not an object. \<open>split\<close> never
  gives an empty list; for one, \<open>parts[-1]\<close> is \<open>undefined\<close> and the assignment would
  write the key of that name.
\<close>

definition assign_leaf ::
  "pdoc \<Rightarrow> pdoc \<Rightarrow> reference \<Rightarrow> string \<Rightarrow> bool \<Rightarrow> pdoc \<times> pdoc \<times> bool" where
  "assign_leaf custom proto current key v =
     (if current = Null_reference then (custom, proto, True)
      else if key = ''__proto__''
              \<and> (current = In_prototype []
                   \<or> map_of (own_entries custom proto current) key = None)
      then (custom, proto, False)
      else (case assign_property custom proto current key (PBool v) of
              (custom', proto') \<Rightarrow> (custom', proto', False)))"

fun set_path ::
  "pdoc \<Rightarrow> pdoc \<Rightarrow> reference \<Rightarrow> string list \<Rightarrow> bool \<Rightarrow> pdoc \<times> pdoc \<times> bool" where
  "set_path custom proto current [] v = assign_leaf custom proto current ''undefined'' v"
| "set_path custom proto current [part] v = assign_leaf custom proto current part v"
| "set_path custom proto current (part # next # parts) v =
     (if current = Null_reference then (custom, proto, True)
      else (case object_property custom proto current part of
              Some target \<Rightarrow> set_path custom proto target (next # parts) v
            | None \<Rightarrow>
                (case assign_property custom proto current part (PObj []) of
                   (custom', proto') \<Rightarrow>
                     set_path custom' proto' (child_reference current part) (next # parts) v)))"

text \<open>
  \<open>updateCustomPermission\<close>. \<open>newId\<close> is the identifier the database gives a row
  it inserts; \<open>now\<close> is the clock, read by the update and by the column default of the
  insert. The walk comes before the user is looked up, so what it wrote on
  \<open>Object.prototype\<close> stays when the function throws: an error comes with the state the
  call leaves behind.
\<close>

definition updateCustomPermission ::
  "store \<Rightarrow> int \<Rightarrow> string \<Rightarrow> string \<Rightarrow> string \<Rightarrow> bool \<Rightarrow> Context
     \<Rightarrow> (error \<times> store) + store" where
  "updateCustomPermission st now newId userId permission v ctx =
     (let existing = single_row (scope_query st userId ctx);
          parts = split_dot permission
      in (case set_path
                 (case existing of
                    Some e \<Rightarrow> (case up_custom_permissions e of Some c \<Rightarrow> c | None \<Rightarrow> [])
                  | None \<Rightarrow> [])
                 (object_prototype st) (In_custom []) parts v of
            (customPerms, proto, thrown) \<Rightarrow>
              (let st' = st\<lparr>object_prototype := proto\<rparr>
               in if thrown then Inl (TypeError, st')
                  else (case getUser st' userId of
                          None \<Rightarrow> Inl (UserNotFound, st')
                        | Some user \<Rightarrow>
                            (let rolePermissions = DEFAULT_ROLE_PERMISSIONS (u_role user);
                                 effective = recompute st' rolePermissions
                                   (case existing of
                                      Some e \<Rightarrow> up_template_id e | None \<Rightarrow> None)
                                   (Some customPerms)
                             in (case existing of
                                   Some e \<Rightarrow>
                                     Inr (update_user_permission st' (up_id e)
                                            (\<lambda>p. p\<lparr>up_custom_permissions := Some customPerms,
                                                   up_effective_permissions := Some effective,
                                                   up_source := Some Custom_source,
                                                   up_updated_at := now\<rparr>))
                                 | None \<Rightarrow>
                                     Inr (st'\<lparr>user_permissions := user_permissions st' @
                                            [\<lparr>up_id = newId, up_user_id = userId,
                                              up_organization_id = or_null (orgId ctx),
                                              up_team_id = or_null (teamId ctx),
                                              up_source = Some Custom_source,
                                              up_template_id = None,
                                              up_custom_permissions = Some customPerms,
                                              up_effective_permissions = Some effective,
                                              up_updated_at = now\<rparr>]\<rparr>)))))))"

definition grantPermission ::
  "store \<Rightarrow> int \<Rightarrow> string \<Rightarrow> string \<Rightarrow> string \<Rightarrow> Context \<Rightarrow> (error \<times> store) + store" where
  "grantPermission st now newId userId permission ctx =
     updateCustomPermission st now newId userId permission True ctx"

definition revokePermission ::
  "store \<Rightarrow> int \<Rightarrow> string \<Rightarrow> string \<Rightarrow> string \<Rightarrow> Context \<Rightarrow> (error \<times> store) + store" where
  "revokePermission st now newId userId permission ctx =
     updateCustomPermission st now newId userId permission False ctx"


text \<open>
  \<open>UserService.updateUser\<close>, for the fields of \<open>Partial<User>\<close> the model keeps
  (\<open>id\<close> and \<open>organization_id\<close> are dropped from the data before the write).
\<close>

record UserData =
  data_role :: "UserRole option"
  data_active :: "bool option"

definition updateUser :: "store \<Rightarrow> string \<Rightarrow> UserData \<Rightarrow> error + (User \<times> store)" where
  "updateUser st userId updateData =
     (let st' = st\<lparr>users := map (\<lambda>u. if u_id u = userId
                     then u\<lparr>u_role := (case data_role updateData of Some r \<Rightarrow> r | None \<Rightarrow> u_role u),
                            u_active := (case data_active updateData of Some a \<Rightarrow> a
                                         | None \<Rightarrow> u_active u)\<rparr>
                     else u) (users st)\<rparr>
      in (case single_row (filter (\<lambda>u. u_id u = userId) (users st')) of
            None \<Rightarrow> Inl FailedToUpdateUser
          | Some updated \<Rightarrow> Inr (updated, st')))"

section \<open>HierarchyService\<close>

text \<open>
  \<open>getDirectReports\<close>: the active level-1 edges of the manager, narrowed by the team
  when one is given, each joined with the row of the managed user; users that are
  missing or not active are dropped.
\<close>

definition getDirectReports :: "store \<Rightarrow> string \<Rightarrow> string option \<Rightarrow> User list" where
  "getDirectReports st managerId team =
     (let data = filter (\<lambda>e. mh_manager_id e = managerId \<and> mh_active e \<and> mh_level e = 1
                    \<and> (if truthy team then mh_team_id e = team else True))
                  (management_hierarchy st)
      in filter u_active (List.map_filter (\<lambda>item. getUser st (mh_manages_user_id item)) data))"

text \<open>
  The inner loop of \<open>getAllReports\<close>: an indirect report whose id is not yet in the set
  \<open>allReports\<close> is added to the set and pushed on \<open>reportUsers\<close>.
\<close>

fun add_indirect :: "User list \<Rightarrow> string set \<times> User list \<Rightarrow> string set \<times> User list" where
  "add_indirect [] acc = acc"
| "add_indirect (indirect # others) (allReports, reportUsers) =
     (if u_id indirect \<in> allReports then add_indirect others (allReports, reportUsers)
      else add_indirect others (insert (u_id indirect) allReports, reportUsers @ [indirect]))"

text \<open>
  The outer loop, over the direct reports; \<open>recurse\<close> is the recursive call, which may
  not return (\<open>None\<close>).
\<close>

fun for_reports ::
  "(string \<Rightarrow> User list option) \<Rightarrow> User list \<Rightarrow> string set \<times> User list \<Rightarrow> User list option" where
  "for_reports recurse [] acc = Some (snd acc)"
| "for_reports recurse (report # others) acc =
     (case recurse (u_id report) of
        None \<Rightarrow> None
      | Some indirectReports \<Rightarrow> for_reports recurse others (add_indirect indirectReports acc))"

text \<open>
  \<open>getAllReports\<close> calls itself on every direct report, and nothing bounds the depth of
  the calls, so the model carries fuel: the first argument bounds the depth of the
  recursion, and \<open>None\<close> says that a call did not return within it. The set
  \<open>allReports\<close> is local to each call.
\<close>

primrec getAllReports :: "nat \<Rightarrow> store \<Rightarrow> string \<Rightarrow> User list option" where
  "getAllReports 0 st managerId = None"
| "getAllReports (Suc fuel) st managerId =
     (let directReports = getDirectReports st managerId None
      in for_reports (\<lambda>reportId. getAllReports fuel st reportId) directReports
           (set (map u_id directReports), directReports))"

text \<open>
  The query of \<open>getManagementChain\<close> for the direct manager of a user: the active edges
  that manage the user, lowest level first, the first one.
\<close>

definition direct_manager_row :: "store \<Rightarrow> string \<Rightarrow> ManagementHierarchy option" where
  "direct_manager_row st userId =
     single_row (take 1 (sort_key mh_level
       (filter (\<lambda>e. mh_manages_user_id e = userId \<and> mh_active e) (management_hierarchy st))))"

text \<open>
  The loop of \<open>getManagementChain\<close>, on its three variables \<open>chain\<close>, \<open>visited\<close>
  and \<open>currentUserId\<close>. Each round puts a user that some edge manages into
  \<open>visited\<close>, which was not there before, so the loop ends.
\<close>

function chain_loop :: "store \<Rightarrow> User list \<Rightarrow> string set \<Rightarrow> string \<Rightarrow> User list" where
  "chain_loop st chain visited currentUserId =
     (if currentUserId \<noteq> [] \<and> currentUserId \<notin> visited then
        (case direct_manager_row st currentUserId of
           None \<Rightarrow> chain
         | Some data \<Rightarrow>
             (case getUser st (mh_manager_id data) of
                None \<Rightarrow> chain
              | Some manager \<Rightarrow>
                  if u_active manager \<and> find (\<lambda>u. u_id u = u_id manager) chain = None
                  then chain_loop st (chain @ [manager]) (insert currentUserId visited)
                         (u_id manager)
                  else chain))
      else chain)"
  by pat_completeness auto
termination
proof (relation "measure (\<lambda>(st, chain, visited, currentUserId).
          card (mh_manages_user_id ` set (management_hierarchy st) - visited))")
  show "wf (measure (\<lambda>(st, chain, visited, currentUserId).
          card (mh_manages_user_id ` set (management_hierarchy st) - visited)))"
    by simp
next
  fix st :: store and chain :: "User list" and visited :: "string set"
    and currentUserId :: string and data manager
  assume c: "currentUserId \<noteq> [] \<and> currentUserId \<notin> visited"
    and d: "direct_manager_row st currentUserId = Some data"
  let ?M = "mh_manages_user_id ` set (management_hierarchy st)"
  let ?rows = "sort_key mh_level
       (filter (\<lambda>e. mh_manages_user_id e = currentUserId \<and> mh_active e)
          (management_hierarchy st))"
  have "take 1 ?rows = [data]"
    using d unfolding direct_manager_row_def single_row_def
    by (cases "take 1 ?rows"; cases "tl (take 1 ?rows)") auto
  then have "data \<in> set (take 1 ?rows)"
    by simp
  then have "data \<in> set ?rows"
    by (rule in_set_takeD)
  then have "data \<in> set (management_hierarchy st)" and "mh_manages_user_id data = currentUserId"
    by simp_all
  then have "currentUserId \<in> ?M"
    by force
  then have "currentUserId \<in> ?M - visited"
    using c by simp
  then have "?M - insert currentUserId visited \<subset> ?M - visited"
    by auto
  then have "card (?M - insert currentUserId visited) < card (?M - visited)"
    by (intro psubset_card_mono) simp_all
  then show "((st, chain @ [manager], insert currentUserId visited, u_id manager),
              (st, chain, visited, currentUserId))
             \<in> measure (\<lambda>(st, chain, visited, currentUserId).
                 card (mh_manages_user_id ` set (management_hierarchy st) - visited))"
    by simp
qed

definition getManagementChain :: "store \<Rightarrow> string \<Rightarrow> User list" where
  "getManagementChain st userId = chain_loop st [] {} userId"

text \<open>\<open>Array.prototype.findIndex\<close>: the first index that satisfies, or \<open>-1\<close>.\<close>

fun findIndex :: "('a \<Rightarrow> bool) \<Rightarrow> 'a list \<Rightarrow> int" where
  "findIndex P [] = - 1"
| "findIndex P (x # xs) =
     (if P x then 0 else (let i = findIndex P xs in if i < 0 then - 1 else i + 1))"

definition calculateManagementLevel :: "store \<Rightarrow> string \<Rightarrow> string \<Rightarrow> int" where
  "calculateManagementLevel st managerId managesUserId =
     (case single_row (filter (\<lambda>e. mh_manager_id e = managerId
                \<and> mh_manages_user_id e = managesUserId \<and> mh_active e)
              (management_hierarchy st)) of
        Some direct \<Rightarrow> 1
      | None \<Rightarrow>
          (let chain = getManagementChain st managesUserId;
               managerIndex = findIndex (\<lambda>u. u_id u = managerId) chain
           in if managerIndex \<ge> 0 then managerIndex + 1 else 1))"

text \<open>
  \<open>assignManager\<close>. An absent \<open>scope\<close> argument is \<open>'team'\<close>, absent delegated
  permissions are the empty document. The result is the inserted edge and the store
  holding it.
\<close>

definition assignManager ::
  "store \<Rightarrow> string \<Rightarrow> string \<Rightarrow> string option \<Rightarrow> Scope option \<Rightarrow> pdoc option
     \<Rightarrow> error + (ManagementHierarchy \<times> store)" where
  "assignManager st managerId managesUserId team scopeArg delegatedPermissions =
     (let scope = (case scopeArg of None \<Rightarrow> Team | Some s \<Rightarrow> s)
      in if managerId = managesUserId then Inl SelfManagement
         else (case (getUser st managerId, getUser st managesUserId) of
                 (Some manager, Some managedUser) \<Rightarrow>
                   if u_organization_id manager \<noteq> u_organization_id managedUser
                   then Inl DifferentOrganization
                   else (case single_row (filter (\<lambda>e. mh_manager_id e = managerId
                                  \<and> mh_manages_user_id e = managesUserId
                                  \<and> eq_column (mh_team_id e) (or_null team)
                                  \<and> mh_scope e = scope \<and> mh_active e)
                                (management_hierarchy st)) of
                           Some existing \<Rightarrow> Inl RelationshipExists
                         | None \<Rightarrow>
                             (let level = calculateManagementLevel st managerId managesUserId;
                                  data = \<lparr>mh_organization_id = u_organization_id manager,
                                          mh_manager_id = managerId,
                                          mh_manages_user_id = managesUserId,
                                          mh_team_id = or_null team,
                                          mh_scope = scope,
                                          mh_level = level,
                                          mh_delegated_permissions =
                                            (case delegatedPermissions of
                                               Some d \<Rightarrow> d | None \<Rightarrow> []),
                                          mh_active = True\<rparr>
                              in Inr (data,
                                   st\<lparr>management_hierarchy :=
                                        management_hierarchy st @ [data]\<rparr>)))
               | _ \<Rightarrow> Inl ManagerOrUserNotFound))"

section \<open>Reading a document\<close>

text \<open>
  Two ways to read a document that the statements below use. \<open>resolve_path\<close>
  follows a list of own keys from a value and gives the value it ends at, if every key
  on the way is there; it is the reading of a dotted capability path in a document
  against which the loop of \<open>checkPermission\<close> is compared. \<open>leaf\<close> is the value at
  (category, action), by own keys. \<open>keeps_actions\<close> says that a category of a merged
  document is an object holding at least the given action keys.
\<close>

fun resolve_path :: "pval \<Rightarrow> string list \<Rightarrow> pval option" where
  "resolve_path v [] = Some v"
| "resolve_path (PBool b) (key # keys) = None"
| "resolve_path (PObj ob) (key # keys) =
     (case map_of ob key of None \<Rightarrow> None | Some v \<Rightarrow> resolve_path v keys)"


definition keeps_actions :: "pdoc \<Rightarrow> string \<Rightarrow> pdoc \<Rightarrow> bool" where
  "keeps_actions ob category merged =
     (case map_of merged category of
        Some (PObj ob') \<Rightarrow> fst ` set ob \<subseteq> fst ` set ob'
      | _ \<Rightarrow> False)"

text \<open>
  The match of the specification, for comparison with the query of the code: a row
  matches a request when its user, its organization scope and its team scope are those
  of the request, an absent scope matching an absent scope only.
\<close>

definition exact_scope_match :: "string \<Rightarrow> Context \<Rightarrow> UserPermission \<Rightarrow> bool" where
  "exact_scope_match userId ctx p =
     (up_user_id p = userId \<and> up_organization_id p = or_null (orgId ctx)
      \<and> up_team_id p = or_null (teamId ctx))"

section \<open>Example stores\<close>

text \<open>
  The concrete stores the closed theorems evaluate the services on. All users belong to
  organization \<open>o1\<close>; \<open>mk_edge\<close> is an active level-1 edge of team \<open>t1\<close>.
\<close>

definition mk_user :: "string \<Rightarrow> UserRole \<Rightarrow> User" where
  "mk_user uid r = \<lparr>u_id = uid, u_role = r, u_organization_id = ''o1'', u_active = True\<rparr>"

definition mk_edge :: "string \<Rightarrow> string \<Rightarrow> ManagementHierarchy" where
  "mk_edge m u = \<lparr>mh_organization_id = ''o1'', mh_manager_id = m, mh_manages_user_id = u,
      mh_team_id = Some ''t1'', mh_scope = Team, mh_level = 1,
      mh_delegated_permissions = [], mh_active = True\<rparr>"

text \<open>
  The chain A manages B manages C, and the same store after the edge from C to A
  was inserted.
\<close>

definition st_abc :: store where
  "st_abc = \<lparr>users = [mk_user ''A'' Manager, mk_user ''B'' Lead, mk_user ''C'' Member],
     management_hierarchy = [mk_edge ''A'' ''B'', mk_edge ''B'' ''C''],
     permission_templates = [], user_permissions = [],
     object_prototype = []\<rparr>"

definition st_abca :: store where
  "st_abca = st_abc\<lparr>management_hierarchy :=
     [mk_edge ''A'' ''B'', mk_edge ''B'' ''C'', mk_edge ''C'' ''A'']\<rparr>"

text \<open>
  Two managers, with no edge, with the edge from A to B, and with both edges; a chain of
  four users whose edges were inserted out of order; and A managing B in two teams.
\<close>

definition st_ab0 :: store where
  "st_ab0 = \<lparr>users = [mk_user ''A'' Manager, mk_user ''B'' Manager],
     management_hierarchy = [], permission_templates = [], user_permissions = [],
     object_prototype = []\<rparr>"

definition st_ab1 :: store where
  "st_ab1 = st_ab0\<lparr>management_hierarchy := [mk_edge ''A'' ''B'']\<rparr>"

definition st_ab2 :: store where
  "st_ab2 = st_ab0\<lparr>management_hierarchy := [mk_edge ''A'' ''B'', mk_edge ''B'' ''A'']\<rparr>"

definition st_chain :: store where
  "st_chain = \<lparr>users = [mk_user ''A'' Manager, mk_user ''B'' Lead, mk_user ''C'' Member,
                 mk_user ''D'' Member],
     management_hierarchy = [mk_edge ''C'' ''D'', mk_edge ''A'' ''B'', mk_edge ''B'' ''C''],
     permission_templates = [], user_permissions = [],
     object_prototype = []\<rparr>"

definition st_par :: store where
  "st_par = st_ab0\<lparr>management_hierarchy :=
     [mk_edge ''A'' ''B'', (mk_edge ''A'' ''B'')\<lparr>mh_team_id := Some ''t2''\<rparr>]\<rparr>"

text \<open>
  One member \<open>u1\<close> with no assignment, three request scopes, and the row
  \<open>updateCustomPermission\<close> writes for a member whose row has no template: the custom
  overrides and the role document with the overrides merged on it.
\<close>

definition st_p0 :: store where
  "st_p0 = \<lparr>users = [mk_user ''u1'' Member], management_hierarchy = [],
     permission_templates = [], user_permissions = [],
     object_prototype = []\<rparr>"

definition ctx_org :: Context where "ctx_org = \<lparr>orgId = Some ''o1'', teamId = None\<rparr>"
definition ctx_t1 :: Context where "ctx_t1 = \<lparr>orgId = Some ''o1'', teamId = Some ''t1''\<rparr>"
definition ctx_t2 :: Context where "ctx_t2 = \<lparr>orgId = Some ''o1'', teamId = Some ''t2''\<rparr>"

definition custom_row :: "string \<Rightarrow> string option \<Rightarrow> pdoc \<Rightarrow> int \<Rightarrow> UserPermission" where
  "custom_row rid team custom t =
     \<lparr>up_id = rid, up_user_id = ''u1'', up_organization_id = Some ''o1'', up_team_id = team,
      up_source = Some Custom_source, up_template_id = None,
      up_custom_permissions = Some custom,
      up_effective_permissions =
        Some (mergePermissions [] (DEFAULT_ROLE_PERMISSIONS Member) custom),
      up_updated_at = t\<rparr>"

definition grant_manage :: pdoc where
  "grant_manage = [(''resources'', PObj [(''manage'', PBool True)])]"

definition grant_view_team :: pdoc where
  "grant_view_team = [(''timesheet'', PObj [(''view_team'', PBool True)])]"

definition revoke_create :: pdoc where
  "revoke_create = [(''tasks'', PObj [(''create'', PBool False)])]"

text \<open>
  The member after a grant under the organization scope, and after the role of the user
  was then changed to manager.
\<close>

definition st_c1 :: store where
  "st_c1 = st_p0\<lparr>user_permissions := [custom_row ''r1'' None grant_manage 1]\<rparr>"

definition st_c2 :: store where
  "st_c2 = st_c1\<lparr>users := [mk_user ''u1'' Manager]\<rparr>"

text \<open>
  The member after a grant under team \<open>t1\<close>, a grant under team \<open>t2\<close>, a
  revoke under the organization scope, and a further grant under the organization
  scope.
\<close>

definition st_q1 :: store where
  "st_q1 = st_p0\<lparr>user_permissions := [custom_row ''r1'' (Some ''t1'') grant_view_team 1]\<rparr>"

definition st_q2 :: store where
  "st_q2 = st_p0\<lparr>user_permissions :=
     [custom_row ''r1'' (Some ''t1'') grant_view_team 1,
      custom_row ''r2'' (Some ''t2'') grant_view_team 2]\<rparr>"

definition st_q3 :: store where
  "st_q3 = st_p0\<lparr>user_permissions :=
     [custom_row ''r1'' (Some ''t1'') grant_view_team 1,
      custom_row ''r2'' (Some ''t2'') grant_view_team 2,
      custom_row ''r3'' None revoke_create 3]\<rparr>"

definition st_q4 :: store where
  "st_q4 = st_p0\<lparr>user_permissions :=
     [custom_row ''r1'' (Some ''t1'') grant_view_team 1,
      custom_row ''r2'' (Some ''t2'') grant_view_team 2,
      custom_row ''r3'' None revoke_create 3,
      custom_row ''r4'' None grant_manage 5]\<rparr>"

text \<open>
  A template, a row that names it and has custom overrides but no cached document, and
  a row with custom overrides and a cached document in a store that holds the template.
\<close>

definition template_T1 :: PermissionTemplate where
  "template_T1 = \<lparr>pt_id = ''T1'', pt_organization_id = None,
     pt_permissions = [(''resources'', PObj [(''manage'', PBool True), (''book'', PBool False)])]\<rparr>"

definition row_uncached :: UserPermission where
  "row_uncached = \<lparr>up_id = ''r1'', up_user_id = ''u1'', up_organization_id = Some ''o1'',
      up_team_id = None, up_source = Some Custom_source, up_template_id = Some ''T1'',
      up_custom_permissions = Some [(''resources'', PObj [(''manage'', PBool False)])],
      up_effective_permissions = None, up_updated_at = 1\<rparr>"

definition st_w4 :: store where
  "st_w4 = st_p0\<lparr>permission_templates := [template_T1], user_permissions := [row_uncached]\<rparr>"

definition st_w10 :: store where
  "st_w10 = st_p0\<lparr>permission_templates := [template_T1],
     user_permissions := [custom_row ''r1'' None revoke_create 1]\<rparr>"

text \<open>
  Two managers and three rows, each with a cached document that is not a role document:
  one of \<open>m1\<close> in another team, one of \<open>m2\<close> in the requested scope, one of \<open>m1\<close> in
  another organization.
\<close>

definition scoped_row :: "string \<Rightarrow> string \<Rightarrow> string \<Rightarrow> string \<Rightarrow> UserPermission" where
  "scoped_row rid uid org team_scope =
     \<lparr>up_id = rid, up_user_id = uid, up_organization_id = Some org,
      up_team_id = Some team_scope, up_source = Some Role_source, up_template_id = None,
      up_custom_permissions = None, up_effective_permissions = Some [],
      up_updated_at = 1\<rparr>"

definition st_scoped :: store where
  "st_scoped = \<lparr>users = [mk_user ''m1'' Manager, mk_user ''m2'' Manager],
     management_hierarchy = [], permission_templates = [],
     user_permissions = [scoped_row ''r1'' ''m1'' ''o1'' ''t1'',
                         scoped_row ''r2'' ''m2'' ''o1'' ''t2'',
                         scoped_row ''r3'' ''m1'' ''o2'' ''t2''],
     object_prototype = []\<rparr>"

text \<open>
  Two members in a fresh process, and the state after \<open>u1\<close> was granted the path
  \<open>__proto__.polluted\<close> under the organization scope: the row of \<open>u1\<close> holds empty
  custom overrides, and \<open>Object.prototype\<close> holds \<open>polluted\<close>.
\<close>

definition st_two :: store where
  "st_two = \<lparr>users = [mk_user ''u1'' Member, mk_user ''u2'' Member],
     management_hierarchy = [], permission_templates = [], user_permissions = [],
     object_prototype = []\<rparr>"

definition st_polluted :: store where
  "st_polluted = st_two\<lparr>user_permissions := [custom_row ''r1'' None [] 1],
     object_prototype := [(''polluted'', PBool True)]\<rparr>"

section \<open>Properties of the merge\<close>

lemma keys_update: "fst ` set (AList.update k v al) = insert k (fst ` set al)"
  by (simp add: dom_update)

lemma keys_spread: "fst ` set a \<subseteq> fst ` set (spread a b)"
  unfolding spread_def
proof (induction b arbitrary: a)
  case Nil
  show ?case by simp
next
  case (Cons kv b)
  have "fst ` set a \<subseteq> fst ` set (AList.update (fst kv) (snd kv) a)"
    by (auto simp: keys_update)
  also have "\<dots> \<subseteq> fst ` set (fold (\<lambda>kv acc. AList.update (fst kv) (snd kv) acc) b
                      (AList.update (fst kv) (snd kv) a))"
    by (rule Cons.IH)
  finally show ?case by simp
qed

lemma keys_merge_step: "fst ` set merged \<subseteq> fst ` set (merge_step proto entry merged)"
  by (auto simp: merge_step_def keys_update split: pval.split)

lemma keys_mergePermissions:
  "fst ` set base \<subseteq> fst ` set (mergePermissions proto base override)"
  unfolding mergePermissions_def
proof (induction override arbitrary: base)
  case Nil
  show ?case by simp
next
  case (Cons entry override)
  have "fst ` set base \<subseteq> fst ` set (merge_step proto entry base)"
    by (rule keys_merge_step)
  also have "\<dots> \<subseteq> fst ` set (fold (merge_step proto) override (merge_step proto entry base))"
    by (rule Cons.IH)
  finally show ?case by simp
qed

lemma keeps_actions_merge_step:
  assumes "keeps_actions ob category merged"
  shows "keeps_actions ob category (merge_step proto entry merged)"
proof (cases "snd entry")
  case (PBool b)
  then show ?thesis using assms by (simp add: merge_step_def)
next
  case (PObj perms)
  show ?thesis
  proof (cases "fst entry = category")
    case False
    then show ?thesis using assms PObj
      by (simp add: merge_step_def keeps_actions_def update_conv')
  next
    case True
    obtain ob' where m: "map_of merged category = Some (PObj ob')"
      and sub: "fst ` set ob \<subseteq> fst ` set ob'"
      using assms by (auto simp: keeps_actions_def split: option.splits pval.splits)
    have "fst ` set ob' \<subseteq> fst ` set (spread ob' perms)"
      by (rule keys_spread)
    with sub have "fst ` set ob \<subseteq> fst ` set (spread ob' perms)"
      by blast
    then show ?thesis using True PObj m
      by (simp add: merge_step_def keeps_actions_def update_conv' spread_entries_def
            own_or_inherited_def)
  qed
qed

lemma keeps_actions_mergePermissions:
  "keeps_actions ob category base \<Longrightarrow>
     keeps_actions ob category (mergePermissions proto base override)"
  unfolding mergePermissions_def
proof (induction override arbitrary: base)
  case Nil
  then show ?case by simp
next
  case (Cons entry override)
  from Cons.prems have "keeps_actions ob category (merge_step proto entry base)"
    by (rule keeps_actions_merge_step)
  then have "keeps_actions ob category
      (fold (merge_step proto) override (merge_step proto entry base))"
    by (rule Cons.IH)
  then show ?case by simp
qed









lemmas ex_defs = mk_user_def mk_edge_def st_abc_def st_abca_def getUser_def single_row_def
  getDirectReports_def truthy_def or_null_def eq_column_def Let_def

lemmas ab_defs = st_ab0_def st_ab1_def st_ab2_def st_chain_def

lemmas perm_defs = st_p0_def ctx_org_def ctx_t1_def ctx_t2_def custom_row_def grant_manage_def
  grant_view_team_def revoke_create_def st_c1_def st_c2_def st_q1_def st_q2_def st_q3_def
  st_q4_def mk_user_def getUser_def getTemplate_def single_row_def truthy_def or_null_def
  Let_def scope_query_def latest_rows_def recompute_def update_user_permission_def
  getEffectivePermissions_def checkPermission_def updateCustomPermission_def
  grantPermission_def revokePermission_def updateUser_def
  mergePermissions_def merge_step_def spread_def spread_entries_def own_or_inherited_def
  assign_leaf_def assign_property_def object_property_def inherited_object_def
  own_entries_def child_reference_def get_property_def prototype_property_def
  builtin_names_def


lemmas w_defs = template_T1_def row_uncached_def st_w4_def st_w10_def scoped_row_def
  st_scoped_def st_two_def st_polluted_def

text \<open>
  Claim C8. For every base document and every override document, every category of the
  base document is a category of the merged document; and a category that is an object
  in the base is an object in the merged document that still has every action key it had:
  the merge overrides leaves inside categories and removes nothing.
\<close>

theorem mergePermissions_keeps_categories:
  "fst ` set base \<subseteq> fst ` set (mergePermissions proto base override) \<and>
   (\<forall>category ob. map_of base category = Some (PObj ob) \<longrightarrow>
      (\<exists>ob'. map_of (mergePermissions proto base override) category = Some (PObj ob') \<and>
             fst ` set ob \<subseteq> fst ` set ob'))"
proof (intro conjI allI impI)
  show "fst ` set base \<subseteq> fst ` set (mergePermissions proto base override)"
    by (rule keys_mergePermissions)
next
  fix category ob
  assume "map_of base category = Some (PObj ob)"
  then have "keeps_actions ob category base"
    by (simp add: keeps_actions_def)
  then have "keeps_actions ob category (mergePermissions proto base override)"
    by (rule keeps_actions_mergePermissions)
  then show "\<exists>ob'. map_of (mergePermissions proto base override) category = Some (PObj ob') \<and>
             fst ` set ob \<subseteq> fst ` set ob'"
    by (auto simp: keeps_actions_def split: option.splits pval.splits)
qed

text \<open>
  The member document merged with a template that names \<open>resources\<close>: the six
  categories and the four actions of \<open>resources\<close> are still there.
\<close>

theorem mergePermissions_keeps_categories_witness:
  "map_of (DEFAULT_ROLE_PERMISSIONS Member) ''resources'' =
     Some (PObj [(''view'', PBool True), (''book'', PBool True),
                 (''allocate'', PBool False), (''manage'', PBool False)]) \<and>
   {''tasks'', ''timesheet'', ''leaves'', ''resources'', ''analytics'', ''members''}
     \<subseteq> fst ` set (mergePermissions [] (DEFAULT_ROLE_PERMISSIONS Member)
                   (pt_permissions template_T1)) \<and>
   (\<exists>ob'. map_of (mergePermissions [] (DEFAULT_ROLE_PERMISSIONS Member)
                    (pt_permissions template_T1))
            ''resources'' = Some (PObj ob') \<and>
          {''view'', ''book'', ''allocate'', ''manage''} \<subseteq> fst ` set ob')"
proof -
  have 1: "map_of (DEFAULT_ROLE_PERMISSIONS Member) ''resources'' =
     Some (PObj [(''view'', PBool True), (''book'', PBool True),
                 (''allocate'', PBool False), (''manage'', PBool False)])"
    by simp
  have 2: "fst ` set (DEFAULT_ROLE_PERMISSIONS Member) =
      {''tasks'', ''timesheet'', ''leaves'', ''resources'', ''analytics'', ''members''}"
    by auto
  have 3: "fst ` set [(''view'', PBool True), (''book'', PBool True),
                 (''allocate'', PBool False), (''manage'', PBool False)] =
      {''view'', ''book'', ''allocate'', ''manage''}"
    by auto
  show ?thesis
    using mergePermissions_keeps_categories
      [of "DEFAULT_ROLE_PERMISSIONS Member" "[]" "pt_permissions template_T1"] 1
    unfolding 2 [symmetric] 3 [symmetric] by blast
qed

section \<open>Effective permissions\<close>

lemma walk_fresh_prototype_chain:
  "walk [] Object_prototype parts = False"
  "walk [] Null_value parts = False"
  "walk [] Builtin_function parts = False"
proof -
  have n: "walk [] Null_value ps = False" for ps
    by (cases ps) simp_all
  have f: "walk [] Builtin_function ps = False" for ps
    by (cases ps) simp_all
  show "walk [] Null_value parts = False" by (rule n)
  show "walk [] Builtin_function parts = False" by (rule f)
  show "walk [] Object_prototype parts = False"
    by (cases parts) (simp_all add: get_property_def prototype_property_def n f)
qed

lemma walk_resolve_path:
  "walk [] (Data v) parts = (resolve_path v parts = Some (PBool True))"
proof (induction parts arbitrary: v)
  case Nil
  show ?case by simp
next
  case (Cons part parts)
  show ?case
  proof (cases v)
    case (PBool b)
    then show ?thesis by simp
  next
    case (PObj ob)
    then show ?thesis using Cons.IH
      by (simp add: get_property_def prototype_property_def walk_fresh_prototype_chain
            split: option.split)
  qed
qed

lemma getEffectivePermissions_total:
  assumes "getUser st userId = Some user"
  shows "\<exists>effective st'. getEffectivePermissions st now userId ctx = Inr (effective, st')"
  using assms
  by (simp add: getEffectivePermissions_def Let_def split: list.split option.split)


text \<open>
  Claim C7 as stated fails where a record matches by exact equality of the scopes, as the
  specification has it: the member \<open>u1\<close> has one row, for organization \<open>o1\<close> and
  team \<open>t1\<close>, so no row has the requested triple (\<open>u1\<close>, \<open>o1\<close>, no team); yet the
  query of the code, which a request without a team does not narrow by team, selects
  that row, and \<open>getEffectivePermissions\<close> returns its cached document, which is not
  the member document.
\<close>

theorem getEffectivePermissions_scope_counterexample:
  "getUser st_q1 ''u1'' = Some (mk_user ''u1'' Member) \<and>
   filter (exact_scope_match ''u1'' ctx_org) (user_permissions st_q1) = [] \<and>
   getEffectivePermissions st_q1 2 ''u1'' ctx_org =
     Inr (mergePermissions [] (DEFAULT_ROLE_PERMISSIONS Member) grant_view_team, st_q1) \<and>
   mergePermissions [] (DEFAULT_ROLE_PERMISSIONS Member) grant_view_team
     \<noteq> DEFAULT_ROLE_PERMISSIONS Member"
  by (simp add: perm_defs exact_scope_match_def)

text \<open>
  Claim C7, as amended. For an existing user, when \<open>user_permissions\<close> holds no row of
  the user that the request selects, that is, when every row of the user differs from
  the request in the organization (a request that names one) or in the team (a request
  that names one), \<open>getEffectivePermissions\<close> returns the role-default document of the
  user's role itself, and leaves the store as it was. A scope that the request does not
  name excludes no row.
\<close>

theorem getEffectivePermissions_no_assignment:
  assumes "getUser st userId = Some user"
    and "\<forall>p\<in>set (user_permissions st). up_user_id p = userId \<longrightarrow>
           (truthy (orgId ctx) \<and> up_organization_id p \<noteq> orgId ctx) \<or>
           (truthy (teamId ctx) \<and> up_team_id p \<noteq> teamId ctx)"
  shows "getEffectivePermissions st now userId ctx =
           Inr (DEFAULT_ROLE_PERMISSIONS (u_role user), st)"
proof -
  have "scope_query st userId ctx = []"
    unfolding scope_query_def filter_empty_conv using assms(2) by auto
  then show ?thesis
    using assms(1) by (simp add: getEffectivePermissions_def latest_rows_def)
qed

text \<open>
  The manager \<open>m1\<close> asks under organization \<open>o1\<close> and team \<open>t2\<close>. The table holds a
  row of \<open>m1\<close> for another team, a row of another user for the requested scope, and a
  row of \<open>m1\<close> for another organization; none is selected, and the result is the
  manager document.
\<close>

theorem getEffectivePermissions_no_assignment_witness:
  "getUser st_scoped ''m1'' = Some (mk_user ''m1'' Manager) \<and>
   user_permissions st_scoped =
     [scoped_row ''r1'' ''m1'' ''o1'' ''t1'', scoped_row ''r2'' ''m2'' ''o1'' ''t2'',
      scoped_row ''r3'' ''m1'' ''o2'' ''t2''] \<and>
   getEffectivePermissions st_scoped 2 ''m1'' ctx_t2 =
     Inr (DEFAULT_ROLE_PERMISSIONS Manager, st_scoped)"
proof -
  have 1: "getUser st_scoped ''m1'' = Some (mk_user ''m1'' Manager)"
    by (simp add: perm_defs w_defs)
  have 2: "\<forall>p\<in>set (user_permissions st_scoped). up_user_id p = ''m1'' \<longrightarrow>
           (truthy (orgId ctx_t2) \<and> up_organization_id p \<noteq> orgId ctx_t2) \<or>
           (truthy (teamId ctx_t2) \<and> up_team_id p \<noteq> teamId ctx_t2)"
    by (simp add: perm_defs w_defs)
  have 3: "u_role (mk_user ''m1'' Manager) = Manager"
    by (simp add: mk_user_def)
  have 4: "user_permissions st_scoped =
     [scoped_row ''r1'' ''m1'' ''o1'' ''t1'', scoped_row ''r2'' ''m2'' ''o1'' ''t2'',
      scoped_row ''r3'' ''m1'' ''o2'' ''t2'']"
    by (simp add: st_scoped_def)
  show ?thesis
    using 1 4 getEffectivePermissions_no_assignment [OF 1 2, of 2] unfolding 3 by simp
qed



text \<open>
  In a process that has put nothing on \<open>Object.prototype\<close>, \<open>checkPermission\<close> is
  closed as the claim says: for an existing user it returns a boolean, which is true
  exactly when the parts of the path, followed by own keys from the effective document,
  end at the literal \<open>true\<close>. A key found only on the prototype chain leads to a
  builtin method, to \<open>Object.prototype\<close> or to \<open>null\<close>, never to \<open>true\<close>.
\<close>

lemma checkPermission_fresh_prototype:
  assumes "getUser st userId = Some user" and "object_prototype st = []"
  shows "\<exists>effective st'.
           getEffectivePermissions st now userId ctx = Inr (effective, st') \<and>
           checkPermission st now userId permission ctx =
             Inr (resolve_path (PObj effective) (split_dot permission) = Some (PBool True), st')"
proof -
  obtain effective st' where e: "getEffectivePermissions st now userId ctx = Inr (effective, st')"
    using getEffectivePermissions_total [OF assms(1)] by blast
  have "object_prototype st' = object_prototype st"
    using e assms(1)
    by (auto simp: getEffectivePermissions_def Let_def update_user_permission_def
          split: list.splits option.splits)
  then have "checkPermission st now userId permission ctx =
      Inr (walk [] (Data (PObj effective)) (split_dot permission), st')"
    using e assms(2) by (simp add: checkPermission_def)
  with e show ?thesis
    by (simp add: walk_resolve_path)
qed

text \<open>
  Claim C5. The claim says that a missing category or action yields \<open>false\<close> and that
  only a leaf that is the literal \<open>true\<close> is granted. The loop tests
  \<open>part in current\<close>, which also finds what \<open>Object.prototype\<close> holds, and the walk of
  \<open>updateCustomPermission\<close> enters \<open>Object.prototype\<close> through the part
  \<open>__proto__\<close>. Here \<open>grantPermission(u1, '__proto__.polluted')\<close> leaves the custom
  overrides of \<open>u1\<close> empty and writes \<open>polluted = true\<close> on \<open>Object.prototype\<close>;
  afterwards \<open>checkPermission(u2, 'polluted')\<close> returns true for a user with no
  assignment, whose effective document is the member document, which has no key
  \<open>polluted\<close>.
\<close>

theorem checkPermission_grants_inherited_key:
  "grantPermission st_two 1 ''r1'' ''u1'' ''__proto__.polluted'' ctx_org = Inr st_polluted \<and>
   getEffectivePermissions st_polluted 2 ''u2'' ctx_org =
     Inr (DEFAULT_ROLE_PERMISSIONS Member, st_polluted) \<and>
   resolve_path (PObj (DEFAULT_ROLE_PERMISSIONS Member)) (split_dot ''polluted'') = None \<and>
   checkPermission st_polluted 2 ''u2'' ''polluted'' ctx_org = Inr (True, st_polluted) \<and>
   checkPermission st_polluted 2 ''u1'' ''polluted'' ctx_org = Inr (True, st_polluted)"
  by (simp add: perm_defs w_defs)



text \<open>
  Claim C2. The claim says that the cached document is returned only when no input of
  the merge changed since it was written. The function returns the cached document
  whenever the row has one. Here a member is granted \<open>resources.manage\<close> (which
  writes the cache from the member document), and the user's role is then changed to
  manager by \<open>UserService.updateUser\<close>: \<open>getEffectivePermissions\<close> still returns the
  document computed from the member defaults, in which \<open>tasks.approve\<close> is false,
  while the recomputation from the current role gives \<open>tasks.approve\<close> true.
\<close>

theorem stale_cache_after_role_change:
  "grantPermission st_p0 1 ''r1'' ''u1'' ''resources.manage'' ctx_org = Inr st_c1 \<and>
   updateUser st_c1 ''u1'' \<lparr>data_role = Some Manager, data_active = None\<rparr> =
     Inr (mk_user ''u1'' Manager, st_c2) \<and>
   getEffectivePermissions st_c2 2 ''u1'' ctx_org =
     Inr (mergePermissions [] (DEFAULT_ROLE_PERMISSIONS Member) grant_manage, st_c2) \<and>
   checkPermission st_c2 2 ''u1'' ''tasks.approve'' ctx_org = Inr (False, st_c2) \<and>
   walk (object_prototype st_c2)
     (Data (PObj (recompute st_c2 (DEFAULT_ROLE_PERMISSIONS Manager) None (Some grant_manage))))
     (split_dot ''tasks.approve'') = True"
  by (simp add: perm_defs)

text \<open>
  Claim C6. The claim says that after a revoke of \<open>tasks.create\<close> the check stays
  false after a later grant of another leaf under the same scope. Here the user has two
  rows in organization \<open>o1\<close>, one per team. Under the scope of the organization
  alone the query of \<open>updateCustomPermission\<close> selects both, \<open>.single()\<close> gives
  \<open>null\<close>, and each call inserts a new row built from empty custom overrides: the
  revoke inserts a row that denies \<open>tasks.create\<close>, the grant of
  \<open>resources.manage\<close> then inserts a newer row without the revoke, and the check
  reads that newer row and returns true.
\<close>

theorem revoke_lost_after_grant:
  "grantPermission st_p0 1 ''r1'' ''u1'' ''timesheet.view_team'' ctx_t1 = Inr st_q1 \<and>
   grantPermission st_q1 2 ''r2'' ''u1'' ''timesheet.view_team'' ctx_t2 = Inr st_q2 \<and>
   revokePermission st_q2 3 ''r3'' ''u1'' ''tasks.create'' ctx_org = Inr st_q3 \<and>
   checkPermission st_q3 4 ''u1'' ''tasks.create'' ctx_org = Inr (False, st_q3) \<and>
   grantPermission st_q3 5 ''r4'' ''u1'' ''resources.manage'' ctx_org = Inr st_q4 \<and>
   checkPermission st_q4 6 ''u1'' ''tasks.create'' ctx_org = Inr (True, st_q4)"
  by (simp add: perm_defs)

section \<open>The management hierarchy\<close>

lemma chainA: "getManagementChain st_abc ''A'' = []"
  by (simp add: getManagementChain_def direct_manager_row_def ex_defs)

lemma chainC: "getManagementChain st_abc ''C'' = [mk_user ''B'' Lead, mk_user ''A'' Manager]"
  by (simp add: getManagementChain_def direct_manager_row_def ex_defs)

lemma levelCA: "calculateManagementLevel st_abc ''C'' ''A'' = 1"
  unfolding calculateManagementLevel_def chainA by (simp add: ex_defs)

lemma chain_ab0: "getManagementChain st_ab0 ''B'' = []"
  by (simp add: getManagementChain_def direct_manager_row_def ex_defs ab_defs)

lemma chain_ab1: "getManagementChain st_ab1 ''A'' = []"
  by (simp add: getManagementChain_def direct_manager_row_def ex_defs ab_defs)

lemma level_ab0: "calculateManagementLevel st_ab0 ''A'' ''B'' = 1"
  unfolding calculateManagementLevel_def chain_ab0 by (simp add: ex_defs ab_defs)

lemma level_ab1: "calculateManagementLevel st_ab1 ''B'' ''A'' = 1"
  unfolding calculateManagementLevel_def chain_ab1 by (simp add: ex_defs ab_defs)

lemma level_par: "calculateManagementLevel st_ab1 ''A'' ''B'' = 1"
  unfolding calculateManagementLevel_def by (simp add: ex_defs ab_defs)

lemma direct_A: "getDirectReports st_ab2 ''A'' None = [mk_user ''B'' Manager]"
  by (simp add: ex_defs ab_defs)

lemma direct_B: "getDirectReports st_ab2 ''B'' None = [mk_user ''A'' Manager]"
  by (simp add: ex_defs ab_defs)

text \<open>
  Claim C9. For every store, user identifier, team, scope and delegated permissions,
  \<open>assignManager\<close> with the manager equal to the managed user returns the
  self-management error; an error result carries no store, so no edge is created.
\<close>

theorem assignManager_self:
  "assignManager st u u team scopeArg delegatedPermissions = Inl SelfManagement"
  by (simp add: assignManager_def)

theorem assignManager_self_witness:
  "assignManager st_abc ''A'' ''A'' (Some ''t1'') (Some Team) None = Inl SelfManagement"
  using assignManager_self [of st_abc "''A''" "Some ''t1''" "Some Team" None] .

text \<open>
  Claim C1 as stated fails: with the active level-1 edges from A to B and from B to C
  (so that C is among all reports of A), \<open>assignManager(C, A)\<close> succeeds and inserts
  an active edge from C to A at level 1; afterwards A, B and C manage each other in a
  circle.
\<close>

theorem assignManager_cycle_counterexample:
  "getAllReports 3 st_abc ''A'' = Some [mk_user ''B'' Lead, mk_user ''C'' Member] \<and>
   assignManager st_abc ''C'' ''A'' (Some ''t1'') (Some Team) None =
     Inr (mk_edge ''C'' ''A'', st_abca) \<and>
   getDirectReports st_abca ''A'' None = [mk_user ''B'' Lead] \<and>
   getDirectReports st_abca ''B'' None = [mk_user ''C'' Member] \<and>
   getDirectReports st_abca ''C'' None = [mk_user ''A'' Manager]"
proof (intro conjI)
  show "getAllReports 3 st_abc ''A'' = Some [mk_user ''B'' Lead, mk_user ''C'' Member]"
    by (simp add: ex_defs eval_nat_numeral)
  show "assignManager st_abc ''C'' ''A'' (Some ''t1'') (Some Team) None =
     Inr (mk_edge ''C'' ''A'', st_abca)"
    unfolding assignManager_def levelCA by (simp add: ex_defs)
qed (simp_all add: ex_defs)

text \<open>
  Claim C1, as amended. \<open>assignManager\<close> makes no cycle check. For two distinct
  users that both exist and belong to one organization, and for which the table holds
  no row with the same manager, managed user, team and scope, it succeeds and appends
  one active edge whose level is what \<open>calculateManagementLevel\<close> gives, whether or
  not the managed user already manages the manager, directly or transitively.
\<close>

theorem assignManager_no_cycle_check:
  assumes "managerId \<noteq> managesUserId"
    and "getUser st managerId = Some manager"
    and "getUser st managesUserId = Some managedUser"
    and "u_organization_id manager = u_organization_id managedUser"
    and "scope = (case scopeArg of None \<Rightarrow> Team | Some s \<Rightarrow> s)"
    and "list_all (\<lambda>e. \<not> (mh_manager_id e = managerId \<and> mh_manages_user_id e = managesUserId
            \<and> mh_team_id e = or_null team \<and> mh_scope e = scope))
          (management_hierarchy st)"
    and "data = \<lparr>mh_organization_id = u_organization_id manager,
                 mh_manager_id = managerId, mh_manages_user_id = managesUserId,
                 mh_team_id = or_null team, mh_scope = scope,
                 mh_level = calculateManagementLevel st managerId managesUserId,
                 mh_delegated_permissions =
                   (case delegatedPermissions of Some d \<Rightarrow> d | None \<Rightarrow> []),
                 mh_active = True\<rparr>"
  shows "assignManager st managerId managesUserId team scopeArg delegatedPermissions =
           Inr (data, st\<lparr>management_hierarchy := management_hierarchy st @ [data]\<rparr>)"
proof -
  have "filter (\<lambda>e. mh_manager_id e = managerId \<and> mh_manages_user_id e = managesUserId
            \<and> eq_column (mh_team_id e) (or_null team) \<and> mh_scope e = scope \<and> mh_active e)
          (management_hierarchy st) = []"
    using assms(6)
    by (auto simp: filter_empty_conv list_all_iff eq_column_def split: option.splits)
  then show ?thesis
    using assms(1-5,7) by (simp add: assignManager_def single_row_def Let_def)
qed

text \<open>
  The amended statement at the input of the counterexample.
\<close>

theorem assignManager_no_cycle_check_witness:
  "''C'' \<noteq> ''A'' \<and> getUser st_abc ''C'' = Some (mk_user ''C'' Member) \<and>
   getUser st_abc ''A'' = Some (mk_user ''A'' Manager) \<and>
   getAllReports 3 st_abc ''A'' = Some [mk_user ''B'' Lead, mk_user ''C'' Member] \<and>
   assignManager st_abc ''C'' ''A'' (Some ''t1'') (Some Team) None =
     Inr (mk_edge ''C'' ''A'', st_abca)"
proof -
  have 1: "''C'' \<noteq> ''A''" by simp
  have 2: "getUser st_abc ''C'' = Some (mk_user ''C'' Member)" by (simp add: ex_defs)
  have 3: "getUser st_abc ''A'' = Some (mk_user ''A'' Manager)" by (simp add: ex_defs)
  have 4: "u_organization_id (mk_user ''C'' Member) = u_organization_id (mk_user ''A'' Manager)"
    by (simp add: ex_defs)
  have 5: "Team = (case Some Team of None \<Rightarrow> Team | Some s \<Rightarrow> s)"
    by simp
  have 6: "list_all (\<lambda>e. \<not> (mh_manager_id e = ''C'' \<and> mh_manages_user_id e = ''A''
            \<and> mh_team_id e = or_null (Some ''t1'') \<and> mh_scope e = Team))
          (management_hierarchy st_abc)"
    by (simp add: ex_defs)
  have 9: "mk_edge ''C'' ''A'' = \<lparr>mh_organization_id = u_organization_id (mk_user ''C'' Member),
                 mh_manager_id = ''C'', mh_manages_user_id = ''A'',
                 mh_team_id = or_null (Some ''t1''), mh_scope = Team,
                 mh_level = calculateManagementLevel st_abc ''C'' ''A'',
                 mh_delegated_permissions = (case None of Some d \<Rightarrow> d | None \<Rightarrow> []),
                 mh_active = True\<rparr>"
    unfolding levelCA by (simp add: ex_defs)
  have 7: "getAllReports 3 st_abc ''A'' = Some [mk_user ''B'' Lead, mk_user ''C'' Member]"
    by (simp add: ex_defs eval_nat_numeral)
  have 8: "st_abc\<lparr>management_hierarchy := management_hierarchy st_abc @ [mk_edge ''C'' ''A'']\<rparr>
      = st_abca"
    by (simp add: ex_defs)
  show ?thesis
    using 1 2 3 7 assignManager_no_cycle_check [OF 1 2 3 4 5 6 9]
    unfolding 8 by simp
qed

text \<open>
  The fuel of \<open>getAllReports\<close> only bounds the depth: a result reached with some
  fuel is the result with more fuel. On the chain A, B, C, D the function returns B, C
  and D, whatever the order of the edges in the table.
\<close>

lemma for_reports_mono:
  assumes "\<And>x r. f x = Some r \<Longrightarrow> g x = Some r"
  shows "for_reports f reports acc = Some r \<Longrightarrow> for_reports g reports acc = Some r"
proof (induction reports arbitrary: acc)
  case Nil
  then show ?case by simp
next
  case (Cons report reports)
  from Cons.prems obtain indirect where i: "f (u_id report) = Some indirect"
    and rest: "for_reports f reports (add_indirect indirect acc) = Some r"
    by (auto split: option.splits)
  from i have "g (u_id report) = Some indirect" by (rule assms)
  moreover from rest have "for_reports g reports (add_indirect indirect acc) = Some r"
    by (rule Cons.IH)
  ultimately show ?case by simp
qed

lemma getAllReports_more_fuel:
  "getAllReports fuel st managerId = Some r \<Longrightarrow> getAllReports (Suc fuel) st managerId = Some r"
proof (induction fuel arbitrary: managerId r)
  case 0
  then show ?case by simp
next
  case (Suc fuel)
  have step: "\<And>x r. getAllReports fuel st x = Some r \<Longrightarrow> getAllReports (Suc fuel) st x = Some r"
    by (rule Suc.IH)
  from Suc.prems have "for_reports (\<lambda>reportId. getAllReports fuel st reportId)
      (getDirectReports st managerId None)
      (set (map u_id (getDirectReports st managerId None)), getDirectReports st managerId None)
      = Some r"
    by (simp add: Let_def)
  then have "for_reports (\<lambda>reportId. getAllReports (Suc fuel) st reportId)
      (getDirectReports st managerId None)
      (set (map u_id (getDirectReports st managerId None)), getDirectReports st managerId None)
      = Some r"
    by (rule for_reports_mono [rotated]) (rule step)
  then show ?case
    by (simp add: Let_def)
qed

lemma getAllReports_chain:
  "getAllReports 4 st_chain ''A'' =
     Some [mk_user ''B'' Lead, mk_user ''C'' Member, mk_user ''D'' Member]"
  by (simp add: ex_defs ab_defs eval_nat_numeral)

lemma getAllReports_cycle_both:
  "getAllReports fuel st_ab2 ''A'' = None \<and> getAllReports fuel st_ab2 ''B'' = None"
proof (induction fuel)
  case 0
  show ?case by simp
next
  case (Suc fuel)
  then show ?case
    by (simp add: direct_A direct_B mk_user_def)
qed

text \<open>
  Claim C3. The claim says that \<open>getAllReports\<close> terminates on every edge set,
  cyclic ones included. The store below is reached by two calls of \<open>assignManager\<close>
  (A manages B, then B manages A); on it \<open>getAllReports(A)\<close> calls
  \<open>getAllReports(B)\<close>, which calls \<open>getAllReports(A)\<close>, and so on: no amount of
  fuel gives a result. The set \<open>allReports\<close> is local to one call and does not stop
  the recursion.
\<close>

theorem getAllReports_cycle_diverges:
  "assignManager st_ab0 ''A'' ''B'' (Some ''t1'') (Some Team) None =
     Inr (mk_edge ''A'' ''B'', st_ab1) \<and>
   assignManager st_ab1 ''B'' ''A'' (Some ''t1'') (Some Team) None =
     Inr (mk_edge ''B'' ''A'', st_ab2) \<and>
   (\<forall>fuel. getAllReports fuel st_ab2 ''A'' = None)"
proof (intro conjI allI)
  show "assignManager st_ab0 ''A'' ''B'' (Some ''t1'') (Some Team) None =
     Inr (mk_edge ''A'' ''B'', st_ab1)"
    unfolding assignManager_def level_ab0 by (simp add: ex_defs ab_defs)
  show "assignManager st_ab1 ''B'' ''A'' (Some ''t1'') (Some Team) None =
     Inr (mk_edge ''B'' ''A'', st_ab2)"
    unfolding assignManager_def level_ab1 by (simp add: ex_defs ab_defs)
  show "getAllReports fuel st_ab2 ''A'' = None" for fuel
    using getAllReports_cycle_both [of fuel] by simp
qed

text \<open>
  Two active level-1 edges from A to B, in two teams, are both accepted, and B is then
  listed twice among the reports of A: the direct reports are not de-duplicated.
\<close>

lemma getAllReports_parallel_edges:
  "assignManager st_ab1 ''A'' ''B'' (Some ''t2'') (Some Team) None =
     Inr ((mk_edge ''A'' ''B'')\<lparr>mh_team_id := Some ''t2''\<rparr>, st_par) \<and>
   getAllReports 2 st_par ''A'' = Some [mk_user ''B'' Manager, mk_user ''B'' Manager]"
proof
  show "assignManager st_ab1 ''A'' ''B'' (Some ''t2'') (Some Team) None =
     Inr ((mk_edge ''A'' ''B'')\<lparr>mh_team_id := Some ''t2''\<rparr>, st_par)"
    unfolding assignManager_def level_par by (simp add: ex_defs ab_defs st_par_def)
  show "getAllReports 2 st_par ''A'' = Some [mk_user ''B'' Manager, mk_user ''B'' Manager]"
    by (simp add: ex_defs ab_defs st_par_def eval_nat_numeral)
qed

end
